theory Spec2Isabelle
  imports Main "HOL-Library.AList" "HOL-Library.Sublist" "HOL-Library.Word"
begin

section \<open>Python values shared by the modules\<close>

text \<open>
  A Python \<^verbatim>\<open>dict\<close> keeps its keys in insertion order, so it is an association list:
  \<^verbatim>\<open>k in d\<close> is \<open>map_of d k \<noteq> None\<close>, \<^verbatim>\<open>d[k]\<close> is \<open>map_of d k\<close>,
  \<^verbatim>\<open>d[k] = v\<close> is \<open>AList.update k v d\<close> (update in place, or append at the end) and
  \<^verbatim>\<open>del d[k]\<close> is \<open>AList.delete k d\<close>.  Python's \<^verbatim>\<open>int\<close> is \<open>int\<close>.
\<close>

type_synonym ('k, 'v) dict = "('k \<times> 'v) list"

text \<open>\<^verbatim>\<open>fastapi.HTTPException(status_code=..., detail=...)\<close>, the only error the handlers raise.\<close>

datatype http_error = HTTPException (status_code: int) (detail: string)

text \<open>The apostrophe and the backslash, which a string literal cannot hold.\<close>

definition apostrophe :: char where
  "apostrophe = CHR 0x27"

definition backslash :: char where
  "backslash = CHR 0x5C"

text \<open>
  \<^verbatim>\<open>repr(s)\<close> of a string without quotes, backslashes or unprintable characters (the two
  spider names are such strings), and \<^verbatim>\<open>str(xs)\<close> of a list of such strings.
\<close>

definition repr_str :: "string \<Rightarrow> string" where
  "repr_str s = [apostrophe] @ s @ [apostrophe]"

fun join :: "string \<Rightarrow> string list \<Rightarrow> string" where
  "join sep [] = []"
| "join sep [x] = x"
| "join sep (x # y # ys) = x @ sep @ join sep (y # ys)"

definition str_list :: "string list \<Rightarrow> string" where
  "str_list xs = ''['' @ join '', '' (map repr_str xs) @ '']''"

text \<open>Decimal and hexadecimal digits.\<close>

definition digit_char :: "nat \<Rightarrow> char" where
  "digit_char d = ''0123456789'' ! d"

definition hex_char :: "nat \<Rightarrow> char" where
  "hex_char d = ''0123456789abcdef'' ! d"

definition is_digit :: "char \<Rightarrow> bool" where
  "is_digit c = (c \<in> set ''0123456789'')"

definition is_hex :: "char \<Rightarrow> bool" where
  "is_hex c = (c \<in> set ''0123456789abcdef'')"

text \<open>
  The last \<open>w\<close> digits of \<open>n\<close>: the zero-padded decimal (hexadecimal) form of width \<open>w\<close>
  of a number below \<open>10 ^ w\<close> (\<open>16 ^ w\<close>).
\<close>

fun zero_padded :: "nat \<Rightarrow> nat \<Rightarrow> string" where
  "zero_padded 0 n = []"
| "zero_padded (Suc w) n = zero_padded w (n div 10) @ [digit_char (n mod 10)]"

fun zero_padded_hex :: "nat \<Rightarrow> nat \<Rightarrow> string" where
  "zero_padded_hex 0 n = []"
| "zero_padded_hex (Suc w) n = zero_padded_hex w (n div 16) @ [hex_char (n mod 16)]"



section \<open>models.py\<close>

record CrawlRequest =
  urls :: "string list option"
  spider :: string

text \<open>\<^verbatim>\<open>CrawlRequest()\<close>: both fields take their defaults.\<close>

definition CrawlRequest_default :: CrawlRequest where
  "CrawlRequest_default = \<lparr>urls = None, spider = ''luma''\<rparr>"

record CrawlResponse =
  job_id :: string
  status :: string

section \<open>crawler.py\<close>

subsection \<open>The clock and the random source\<close>

text \<open>
  \<^verbatim>\<open>datetime.now()\<close> and \<^verbatim>\<open>uuid.uuid4()\<close> read the environment; their results are
  arguments of the model.  A \<^verbatim>\<open>UUID\<close> is its 128-bit integer.
\<close>

record datetime =
  year :: nat
  month :: nat
  day :: nat
  hour :: nat
  minute :: nat
  second :: nat

text \<open>The fields a \<^verbatim>\<open>datetime\<close> can hold, with a year that \<^verbatim>\<open>%Y\<close> prints in four digits.\<close>

definition valid_datetime :: "datetime \<Rightarrow> bool" where
  "valid_datetime t =
     (1000 \<le> year t \<and> year t \<le> 9999 \<and> 1 \<le> month t \<and> month t \<le> 12 \<and>
      1 \<le> day t \<and> day t \<le> 31 \<and> hour t < 24 \<and> minute t < 60 \<and> second t < 60)"

text \<open>\<^verbatim>\<open>t.strftime("%Y%m%d_%H%M%S")\<close>.\<close>

definition strftime_Ymd_HMS :: "datetime \<Rightarrow> string" where
  "strftime_Ymd_HMS t =
     zero_padded 4 (year t) @ zero_padded 2 (month t) @ zero_padded 2 (day t) @ ''_'' @
     zero_padded 2 (hour t) @ zero_padded 2 (minute t) @ zero_padded 2 (second t)"

text \<open>
  \<^verbatim>\<open>str(u)\<close> of a UUID: \<^verbatim>\<open>hex = '%032x' % u.int\<close>, then the groups
  \<^verbatim>\<open>hex[:8], hex[8:12], hex[12:16], hex[16:20], hex[20:]\<close> joined by hyphens.
\<close>

definition str_uuid :: "128 word \<Rightarrow> string" where
  "str_uuid u =
     (let hex = zero_padded_hex 32 (unat u)
      in take 8 hex @ ''-'' @ take 4 (drop 8 hex) @ ''-'' @ take 4 (drop 12 hex) @ ''-'' @
         take 4 (drop 16 hex) @ ''-'' @ drop 20 hex)"

definition generate_job_id :: "datetime \<Rightarrow> 128 word \<Rightarrow> string \<Rightarrow> string" where
  "generate_job_id now uuid4 spider_name =
     (let timestamp = strftime_Ymd_HMS now;
          unique_id = take 8 (str_uuid uuid4)
      in ''crawl_'' @ timestamp @ ''_'' @ spider_name @ ''_'' @ unique_id)"

subsection \<open>The job store and the event loop\<close>

text \<open>
  \<open>jobs\<close> is the module's global \<^verbatim>\<open>jobs: dict[str, str]\<close>.  \<open>tasks\<close> is the state of the
  asyncio event loop that \<^verbatim>\<open>asyncio.create_task\<close> changes: the coroutines
  \<^verbatim>\<open>_run_spider_async(spider_name, job_id, settings)\<close> handed to the loop and not yet run,
  each as its pair of spider name and job id.
\<close>

record world =
  jobs :: "(string, string) dict"
  tasks :: "(string \<times> string) list"

subsection \<open>\<^verbatim>\<open>_run_spider_async\<close>\<close>

text \<open>
  An exception object: whether its class derives from \<^verbatim>\<open>Exception\<close> (task cancellation,
  \<^verbatim>\<open>asyncio.CancelledError\<close>, derives from \<^verbatim>\<open>BaseException\<close> only), and its text.
\<close>

datatype exn = Exn (is_Exception: bool) (message: string)

text \<open>
  The calls of the coroutine that leave the module, in the order of the source: the two
  \<^verbatim>\<open>await asyncio.sleep(...)\<close>, the two \<^verbatim>\<open>print\<close> of the \<^verbatim>\<open>try\<close> block and the
  \<^verbatim>\<open>print\<close> of the handler.  What each of them does is the environment's choice:
  \<open>None\<close> when the call returns, \<open>Some e\<close> when it raises \<open>e\<close>.  Entering and leaving
  an \<^verbatim>\<open>AsyncExitStack\<close> on which nothing was registered does nothing.
\<close>

datatype call_site =
  Sleep_startup | Print_starting | Sleep_crawl | Print_completed | Print_failed

type_synonym faults = "call_site \<Rightarrow> exn option"

text \<open>
  The coroutine never reads \<open>jobs\<close>; its effect on the store is the sequence of the
  assignments \<^verbatim>\<open>jobs[job_id] = ...\<close> it makes.  The body of the \<^verbatim>\<open>try\<close> block gives
  the assignments made and the exception that ended it, if any.
\<close>

definition try_block :: "faults \<Rightarrow> string \<Rightarrow> (string \<times> string) list \<times> exn option" where
  "try_block env jid =
     (let writes = [(jid, ''running'')]
      in case env Sleep_startup of Some e \<Rightarrow> (writes, Some e) | None \<Rightarrow>
         (case env Print_starting of Some e \<Rightarrow> (writes, Some e) | None \<Rightarrow>
         (case env Sleep_crawl of Some e \<Rightarrow> (writes, Some e) | None \<Rightarrow>
         (let writes = writes @ [(jid, ''completed'')]
          in case env Print_completed of Some e \<Rightarrow> (writes, Some e) | None \<Rightarrow>
             (writes, None)))))"

text \<open>
  \<^verbatim>\<open>except Exception as e\<close>: an exception of another class leaves the coroutine as it is.
  The result is the assignments made, and the exception that left the coroutine, if any.
  The argument \<^verbatim>\<open>settings\<close> is never read and is left out.
\<close>

definition run_spider_async ::
  "faults \<Rightarrow> string \<Rightarrow> string \<Rightarrow> (string \<times> string) list \<times> exn option" where
  "run_spider_async env spider_name jid =
     (case try_block env jid of
        (writes, None) \<Rightarrow> (writes, None)
      | (writes, Some e) \<Rightarrow>
          if is_Exception e then
            (let writes = writes @ [(jid, ''failed'')]
             in case env Print_failed of Some e' \<Rightarrow> (writes, Some e') | None \<Rightarrow> (writes, None))
          else (writes, Some e))"

text \<open>The assignments of a coroutine, made on the store.\<close>

definition apply_writes :: "(string \<times> string) list \<Rightarrow> (string, string) dict \<Rightarrow> (string, string) dict" where
  "apply_writes writes js = fold (\<lambda>(k, v). AList.update k v) writes js"

text \<open>
  The event loop running every scheduled coroutine to its end, in the order of scheduling.
\<close>

definition run_tasks :: "faults \<Rightarrow> world \<Rightarrow> world" where
  "run_tasks env w =
     \<lparr>jobs = fold (\<lambda>(spider_name, jid). apply_writes (fst (run_spider_async env spider_name jid)))
               (tasks w) (jobs w),
      tasks = []\<rparr>"

subsection \<open>The endpoints\<close>

definition available_spiders :: "string list" where
  "available_spiders = [''luma'', ''eventbrite'']"

text \<open>
  \<^verbatim>\<open>POST /crawl\<close>.  The result is the response or the exception raised, and the world
  after the call.  The source schedules nothing: the call of \<^verbatim>\<open>asyncio.create_task\<close> is
  commented out, so \<open>tasks\<close> stays as it is.
\<close>

definition trigger_crawl ::
  "datetime \<Rightarrow> 128 word \<Rightarrow> CrawlRequest option \<Rightarrow> world \<Rightarrow> (http_error + CrawlResponse) \<times> world" where
  "trigger_crawl now uuid4 request w =
     (let request = (case request of None \<Rightarrow> CrawlRequest_default | Some r \<Rightarrow> r);
          spider_name = spider request
      in if spider_name \<notin> set available_spiders then
           (Inl (HTTPException 400
                  (''Spider '' @ [apostrophe] @ spider_name @ [apostrophe] @
                   '' not found. Available: '' @ str_list available_spiders)), w)
         else
           (let job_id = generate_job_id now uuid4 spider_name;
                w = w\<lparr>jobs := AList.update job_id ''pending'' (jobs w)\<rparr>
            in (Inr \<lparr>job_id = job_id, status = ''pending''\<rparr>, w)))"

text \<open>The exception both \<^verbatim>\<open>get_crawl_status\<close> and \<^verbatim>\<open>cancel_crawl_job\<close> raise.\<close>

definition job_not_found :: "string \<Rightarrow> http_error" where
  "job_not_found jid =
     HTTPException 404 (''Job '' @ [apostrophe] @ jid @ [apostrophe] @ '' not found'')"

text \<open>\<^verbatim>\<open>GET /crawl/{job_id}\<close>.\<close>

definition get_crawl_status :: "string \<Rightarrow> (string, string) dict \<Rightarrow> http_error + (string, string) dict" where
  "get_crawl_status jid js =
     (case map_of js jid of
        None \<Rightarrow> Inl (job_not_found jid)
      | Some st \<Rightarrow> Inr [(''job_id'', jid), (''status'', st)])"

text \<open>
  \<^verbatim>\<open>GET /crawl\<close>.  The loop body \<^verbatim>\<open>status_counts[status] = status_counts.get(status, 0) + 1\<close>,
  and the response, whose key \<^verbatim>\<open>"jobs"\<close> is the field \<open>listed_jobs\<close>.
\<close>

definition count_status :: "string \<Rightarrow> (string, int) dict \<Rightarrow> (string, int) dict" where
  "count_status st status_counts =
     AList.update st ((case map_of status_counts st of None \<Rightarrow> 0 | Some n \<Rightarrow> n) + 1) status_counts"

record crawl_jobs =
  listed_jobs :: "(string, string) dict"
  total_jobs :: int
  status_summary :: "(string, int) dict"

definition list_crawl_jobs :: "(string, string) dict \<Rightarrow> crawl_jobs" where
  "list_crawl_jobs js =
     (let status_counts = fold count_status (map snd js) []
      in \<lparr>listed_jobs = js, total_jobs = int (length js), status_summary = status_counts\<rparr>)"

text \<open>\<^verbatim>\<open>DELETE /crawl/{job_id}\<close>: the response or the exception, and the store after the call.\<close>

definition cancel_crawl_job ::
  "string \<Rightarrow> (string, string) dict \<Rightarrow> (http_error + (string, string) dict) \<times> (string, string) dict" where
  "cancel_crawl_job jid js =
     (if map_of js jid = None then (Inl (job_not_found jid), js)
      else
        (let js = AList.delete jid js
         in (Inr [(''message'', ''Job '' @ [apostrophe] @ jid @ [apostrophe] @ '' has been removed''),
                  (''job_id'', jid)], js)))"

section \<open>db.py and router.py\<close>

subsection \<open>The event collection\<close>

text \<open>
  A stored document is a dict from field names to values of the store.  A query is the
  filter dict of the source: a field is compared with a string, or matched against
  \<^verbatim>\<open>{"$regex": pattern, "$options": options}\<close>.  Whether a document satisfies a query is
  decided by MongoDB, outside the repository: it is the argument \<open>matches\<close>.  The
  collection is the list of its documents in the order the store returns them.
\<close>

type_synonym 'v document = "(string, 'v) dict"

datatype cond = Equals string | Regex string string

type_synonym query = "(string, cond) dict"



text \<open>
  \<^verbatim>\<open>find_one\<close> gives the first match, or \<^verbatim>\<open>None\<close>.  The store may also refuse a query:
  pymongo then raises (an \<^verbatim>\<open>OperationFailure\<close> for a \<^verbatim>\<open>$regex\<close> that is not a regular
  expression, for one).  Which queries the store refuses is its own choice, the argument
  \<open>query_error\<close>: the text of the exception raised for the query, if any.
\<close>

definition find_one ::
  "(query \<Rightarrow> 'v document \<Rightarrow> bool) \<Rightarrow> (query \<Rightarrow> string option) \<Rightarrow> 'v document list \<Rightarrow> query \<Rightarrow>
   string + 'v document option" where
  "find_one matches query_error coll q =
     (case query_error q of
        Some err \<Rightarrow> Inl err
      | None \<Rightarrow> Inr (case filter (matches q) coll of [] \<Rightarrow> None | d # _ \<Rightarrow> Some d))"

text \<open>\<^verbatim>\<open>if "_id" in event: del event["_id"]\<close>.\<close>

definition drop_object_id :: "'v document \<Rightarrow> 'v document" where
  "drop_object_id event = (if map_of event ''_id'' \<noteq> None then AList.delete ''_id'' event else event)"

subsection \<open>\<^verbatim>\<open>get_events\<close>\<close>






subsection \<open>\<^verbatim>\<open>get_event\<close>\<close>

text \<open>\<^verbatim>\<open>api_id.replace("-", "\\s+")\<close>: every hyphen becomes the three characters \<^verbatim>\<open>\s+\<close>.\<close>

definition replace_hyphens :: "string \<Rightarrow> string" where
  "replace_hyphens api_id =
     concat (map (\<lambda>c. if c = CHR ''-'' then [backslash, CHR ''s'', CHR ''+''] else [c]) api_id)"

text \<open>The two lookups of the handler: by \<^verbatim>\<open>api_id\<close>, and by title when the first finds nothing.\<close>

definition by_api_id :: "string \<Rightarrow> query" where
  "by_api_id api_id = [(''api_id'', Equals api_id)]"

definition by_title :: "string \<Rightarrow> query" where
  "by_title api_id = [(''title'', Regex (replace_hyphens api_id) ''i'')]"

text \<open>
  How a call of the handler can fail: with an \<^verbatim>\<open>HTTPException\<close> it raises itself, or with
  an exception of the store that no \<^verbatim>\<open>try\<close> of the handler encloses and that leaves
  it; FastAPI answers the second with status 500.
\<close>

datatype failure = Http http_error | Unhandled string


text \<open>
  \<^verbatim>\<open>GET /events/{api_id}\<close>.  Both calls of \<^verbatim>\<open>find_one\<close> stand outside the \<^verbatim>\<open>try\<close>; the
  second runs only when the first finds nothing.
\<close>

definition get_event ::
  "(query \<Rightarrow> 'v document \<Rightarrow> bool) \<Rightarrow> (query \<Rightarrow> string option) \<Rightarrow> ('v document \<Rightarrow> string + 'e) \<Rightarrow>
   'v document list \<Rightarrow> string \<Rightarrow> failure + 'e" where
  "get_event matches query_error event_out coll api_id =
     (case find_one matches query_error coll (by_api_id api_id) of
        Inl err \<Rightarrow> Inl (Unhandled err)
      | Inr event \<Rightarrow>
          (case (if event = None then find_one matches query_error coll (by_title api_id)
                 else Inr event) of
             Inl err \<Rightarrow> Inl (Unhandled err)
           | Inr event \<Rightarrow>
               (case event of
                  None \<Rightarrow> Inl (Http (HTTPException 404 ''Event not found''))
                | Some event \<Rightarrow>
                    (case event_out (drop_object_id event) of
                       Inr dumped \<Rightarrow> Inr dumped
                     | Inl e \<Rightarrow>
                         Inl (Http (HTTPException 500 (''Error processing event data: '' @ e)))))))"

section \<open>Patterns and sample inputs\<close>

text \<open>
  The shape of a job id as \<^verbatim>\<open>_generate_job_id\<close> builds it:
  \<^verbatim>\<open>crawl_<8 digits>_<6 digits>_<spider>_<8 hex digits>\<close>.
\<close>

definition date_time_job_id :: "string \<Rightarrow> string \<Rightarrow> bool" where
  "date_time_job_id spider_name s =
     (let d = take 8 (drop 6 s); t = take 6 (drop 15 s); h = drop (23 + length spider_name) s
      in s = ''crawl_'' @ d @ ''_'' @ t @ ''_'' @ spider_name @ ''_'' @ h \<and>
         length d = 8 \<and> list_all is_digit d \<and> length t = 6 \<and> list_all is_digit t \<and>
         length h = 8 \<and> list_all is_hex h)"

text \<open>
  The shape the specification names, \<^verbatim>\<open>crawl_<14-digit-datetime>_<spider>_<8-hex>\<close>:
  fourteen digits between the prefix and the spider name.
\<close>

definition fourteen_digit_job_id :: "string \<Rightarrow> string \<Rightarrow> bool" where
  "fourteen_digit_job_id spider_name s =
     (let ts = take 14 (drop 6 s); h = drop (22 + length spider_name) s
      in s = ''crawl_'' @ ts @ ''_'' @ spider_name @ ''_'' @ h \<and>
         length ts = 14 \<and> list_all is_digit ts \<and> length h = 8 \<and> list_all is_hex h)"

text \<open>
  The exception that ends the simulated crawl, if any: the first one raised by a call that
  comes before the assignment of \<^verbatim>\<open>"completed"\<close>.
\<close>

definition first_raised :: "faults \<Rightarrow> exn option" where
  "first_raised env =
     (case env Sleep_startup of Some e \<Rightarrow> Some e | None \<Rightarrow>
     (case env Print_starting of Some e \<Rightarrow> Some e | None \<Rightarrow> env Sleep_crawl))"

text \<open>Environments: every call returns; exactly one call raises a given exception.\<close>

definition no_faults :: faults where
  "no_faults = (\<lambda>c. None)"

definition raise_at :: "call_site \<Rightarrow> exn \<Rightarrow> faults" where
  "raise_at c e = (\<lambda>c'. if c' = c then Some e else None)"

text \<open>
  \<^verbatim>\<open>asyncio.CancelledError()\<close>, which derives from \<^verbatim>\<open>BaseException\<close>, and
  \<^verbatim>\<open>BrokenPipeError\<close>, an \<^verbatim>\<open>OSError\<close>, which \<^verbatim>\<open>print\<close> raises on a closed pipe.
\<close>

definition CancelledError :: exn where
  "CancelledError = Exn False []"

definition BrokenPipeError :: exn where
  "BrokenPipeError = Exn True ''[Errno 32] Broken pipe''"

text \<open>Sample inputs: a clock reading, a UUID, requests, a world and a job store.\<close>

definition new_year_2024 :: datetime where
  "new_year_2024 = \<lparr>year = 2024, month = 1, day = 1, hour = 12, minute = 34, second = 56\<rparr>"

definition sample_uuid :: "128 word" where
  "sample_uuid = 0x1b9d6bcdbbfd4b2d9b5dab8dfbbd4bed"

definition eventbrite_request :: CrawlRequest where
  "eventbrite_request = \<lparr>urls = None, spider = ''eventbrite''\<rparr>"

definition meetup_request :: CrawlRequest where
  "meetup_request = \<lparr>urls = None, spider = ''meetup''\<rparr>"

definition luma_request :: CrawlRequest where
  "luma_request = \<lparr>urls = Some [''https://lu.ma/discover''], spider = ''luma''\<rparr>"

definition empty_world :: world where
  "empty_world = \<lparr>jobs = [], tasks = []\<rparr>"

definition sample_jobs :: "(string, string) dict" where
  "sample_jobs = [(''job_a'', ''pending''), (''job_b'', ''running''), (''job_c'', ''pending'')]"









section \<open>Facts about dicts, digits and substrings\<close>

lemma map_of_update_same: "map_of (AList.update k v al) k = Some v"
  by (simp add: update_conv')

lemma map_of_delete_same: "map_of (AList.delete k al) k = None"
  by (simp add: delete_conv')

lemma card_keys: "distinct (map fst js) \<Longrightarrow> card (dom (map_of js)) = length js"
  by (simp add: dom_map_of_conv_image_fst distinct_card flip: set_map)

lemma zero_padded_numeral:
  "zero_padded (numeral k) n = zero_padded (pred_numeral k) (n div 10) @ [digit_char (n mod 10)]"
  by (simp only: numeral_eq_Suc[of k] zero_padded.simps)

lemma zero_padded_1: "zero_padded 1 n = [digit_char (n mod 10)]"
  by (simp add: One_nat_def)

lemma zero_padded_hex_numeral:
  "zero_padded_hex (numeral k) n = zero_padded_hex (pred_numeral k) (n div 16) @ [hex_char (n mod 16)]"
  by (simp only: numeral_eq_Suc[of k] zero_padded_hex.simps)

lemma zero_padded_hex_1: "zero_padded_hex 1 n = [hex_char (n mod 16)]"
  by (simp add: One_nat_def)

lemmas eval_digits = zero_padded_numeral zero_padded_1 zero_padded_hex_numeral zero_padded_hex_1
  digit_char_def hex_char_def

lemma length_zero_padded: "length (zero_padded w n) = w"
  by (induction w arbitrary: n) simp_all

lemma length_zero_padded_hex: "length (zero_padded_hex w n) = w"
  by (induction w arbitrary: n) simp_all

lemma is_digit_digit_char: "d < 10 \<Longrightarrow> is_digit (digit_char d)"
  unfolding is_digit_def digit_char_def by (rule nth_mem) simp

lemma is_hex_hex_char: "d < 16 \<Longrightarrow> is_hex (hex_char d)"
  unfolding is_hex_def hex_char_def by (rule nth_mem) simp

lemma digits_zero_padded: "list_all is_digit (zero_padded w n)"
  by (induction w arbitrary: n) (simp_all add: is_digit_digit_char)

lemma hex_zero_padded_hex: "list_all is_hex (zero_padded_hex w n)"
  by (induction w arbitrary: n) (simp_all add: is_hex_hex_char)

lemma list_all_take: "list_all P xs \<Longrightarrow> list_all P (take n xs)"
  by (auto simp: list_all_iff dest: in_set_takeD)

lemma drop_prefix: "length xs = n \<Longrightarrow> drop n (xs @ ys) = ys"
  by simp

lemma sublist_middle: "sublist xs (ps @ xs @ ss)"
  unfolding sublist_def by blast

lemma sublist_suffix_part: "sublist xs ys \<Longrightarrow> sublist xs (ps @ ys)"
  unfolding sublist_def by (metis append.assoc)

section \<open>The job id\<close>

lemma take_8_str_uuid: "take 8 (str_uuid u) = take 8 (zero_padded_hex 32 (unat u))"
  by (simp add: str_uuid_def Let_def length_zero_padded_hex)

lemma length_unique_id: "length (take 8 (str_uuid u)) = 8"
  by (simp add: take_8_str_uuid length_zero_padded_hex)

lemma hex_unique_id: "list_all is_hex (take 8 (str_uuid u))"
  by (simp add: take_8_str_uuid list_all_take hex_zero_padded_hex)

lemma date_time_job_idI:
  assumes "length d = 8" "list_all is_digit d" "length t = 6" "list_all is_digit t"
    "length h = 8" "list_all is_hex h"
  shows "date_time_job_id sp (''crawl_'' @ d @ ''_'' @ t @ ''_'' @ sp @ ''_'' @ h)"
proof -
  let ?pre = "''crawl_'' @ d @ ''_'' @ t @ ''_'' @ sp @ ''_''"
  have "drop (23 + length sp) (?pre @ h) = h"
    by (rule drop_prefix) (use assms in simp)
  then have h: "drop (23 + length sp) (''crawl_'' @ d @ ''_'' @ t @ ''_'' @ sp @ ''_'' @ h) = h"
    by simp
  have d: "take 8 (drop 6 (''crawl_'' @ d @ ''_'' @ t @ ''_'' @ sp @ ''_'' @ h)) = d"
    using assms by simp
  have t: "take 6 (drop 15 (''crawl_'' @ d @ ''_'' @ t @ ''_'' @ sp @ ''_'' @ h)) = t"
    using assms by simp
  show ?thesis
    unfolding date_time_job_id_def Let_def h d t using assms by simp
qed

lemma generate_job_id_parts:
  "generate_job_id now u sp =
     ''crawl_'' @ (zero_padded 4 (year now) @ zero_padded 2 (month now) @ zero_padded 2 (day now)) @ ''_'' @
     (zero_padded 2 (hour now) @ zero_padded 2 (minute now) @ zero_padded 2 (second now)) @ ''_'' @
     sp @ ''_'' @ take 8 (str_uuid u)"
  by (simp add: generate_job_id_def strftime_Ymd_HMS_def Let_def)

lemma job_id_example:
  "generate_job_id new_year_2024 sample_uuid ''eventbrite'' =
   ''crawl_20240101_123456_eventbrite_1b9d6bcd''"
  by (simp add: new_year_2024_def sample_uuid_def generate_job_id_def strftime_Ymd_HMS_def
        str_uuid_def eval_digits)

lemma valid_new_year_2024: "valid_datetime new_year_2024"
  by (simp add: valid_datetime_def new_year_2024_def)

text \<open>
  C6, as the code has it: for every spider name, every clock reading with a four-digit
  year and every UUID, the job id is \<^verbatim>\<open>crawl_\<close>, eight digits of the date, an underscore,
  six digits of the time, an underscore, the spider name, an underscore and eight lower-case
  hexadecimal digits.  It begins with \<^verbatim>\<open>crawl_\<close> and embeds the spider name between
  underscores.
\<close>

theorem generate_job_id_format:
  assumes "valid_datetime now"
  shows "date_time_job_id spider_name (generate_job_id now uuid4 spider_name) \<and>
         sublist (''_'' @ spider_name @ ''_'') (generate_job_id now uuid4 spider_name) \<and>
         take 6 (generate_job_id now uuid4 spider_name) = ''crawl_''"
proof -
  have fmt: "date_time_job_id spider_name (generate_job_id now uuid4 spider_name)"
    unfolding generate_job_id_parts
    by (rule date_time_job_idI)
       (simp_all add: length_zero_padded digits_zero_padded length_unique_id hex_unique_id
          del: length_take)
  have "generate_job_id now uuid4 spider_name =
      (''crawl_'' @ strftime_Ymd_HMS now) @ (''_'' @ spider_name @ ''_'') @ take 8 (str_uuid uuid4)"
    by (simp add: generate_job_id_def Let_def)
  then have emb: "sublist (''_'' @ spider_name @ ''_'') (generate_job_id now uuid4 spider_name)"
    using sublist_middle by metis
  have pre: "take 6 (generate_job_id now uuid4 spider_name) = ''crawl_''"
    by (simp add: generate_job_id_def Let_def)
  from fmt emb pre show ?thesis by simp
qed

theorem generate_job_id_format_witness:
  "valid_datetime new_year_2024 \<and>
   date_time_job_id ''eventbrite'' ''crawl_20240101_123456_eventbrite_1b9d6bcd''"
proof -
  have v: "valid_datetime new_year_2024"
    by (rule valid_new_year_2024)
  from generate_job_id_format[OF v, of "''eventbrite''" sample_uuid] v
  show ?thesis by (simp add: job_id_example)
qed

text \<open>
  C6, as the specification states it, fails: the id generated for \<^verbatim>\<open>eventbrite\<close> at
  2024-01-01 12:34:56 is \<^verbatim>\<open>crawl_20240101_123456_eventbrite_1b9d6bcd\<close>, where an
  underscore separates the date from the time, so no fourteen digits follow the prefix.
\<close>

theorem generate_job_id_not_fourteen_digits:
  "\<not> fourteen_digit_job_id ''eventbrite''
       (generate_job_id new_year_2024 sample_uuid ''eventbrite'')"
  by (simp add: job_id_example fourteen_digit_job_id_def is_digit_def)

section \<open>The crawl endpoints\<close>

lemma sum_count_status:
  "sum_list (map snd (count_status st c)) = sum_list (map snd c) + 1"
  unfolding count_status_def by (induction c) auto

lemma sum_fold_count_status:
  "sum_list (map snd (fold count_status sts c)) = sum_list (map snd c) + int (length sts)"
  by (induction sts arbitrary: c) (simp_all add: sum_count_status)

lemma str_list_available:
  "str_list available_spiders =
     ''['' @ [apostrophe] @ ''luma'' @ [apostrophe] @ '', '' @
     [apostrophe] @ ''eventbrite'' @ [apostrophe] @ '']''"
  by (simp add: str_list_def available_spiders_def repr_str_def)

lemma sublist_luma: "sublist ''luma'' (str_list available_spiders)"
  unfolding str_list_available sublist_def
  by (rule exI[of _ "''['' @ [apostrophe]"],
      rule exI[of _ "[apostrophe] @ '', '' @ [apostrophe] @ ''eventbrite'' @ [apostrophe] @ '']''"])
     simp

lemma sublist_eventbrite: "sublist ''eventbrite'' (str_list available_spiders)"
  unfolding str_list_available sublist_def
  by (rule exI[of _ "''['' @ [apostrophe] @ ''luma'' @ [apostrophe] @ '', '' @ [apostrophe]"],
      rule exI[of _ "[apostrophe] @ '']''"])
     simp

lemma trigger_crawl_tasks: "tasks (snd (trigger_crawl now uuid4 request w)) = tasks w"
  by (simp add: trigger_crawl_def Let_def)

text \<open>
  C2: for a request whose spider is \<^verbatim>\<open>luma\<close> or \<^verbatim>\<open>eventbrite\<close>, \<^verbatim>\<open>trigger_crawl\<close> returns the
  generated job id with status \<^verbatim>\<open>pending\<close> and stores that id with \<^verbatim>\<open>pending\<close>, so
  that \<^verbatim>\<open>get_crawl_status\<close> on the new store succeeds and returns \<^verbatim>\<open>pending\<close>.
\<close>

theorem trigger_crawl_registers_pending:
  assumes "spider request \<in> {''luma'', ''eventbrite''}"
  shows "\<exists>jid w'. trigger_crawl now uuid4 (Some request) w =
             (Inr \<lparr>job_id = jid, status = ''pending''\<rparr>, w') \<and>
           jid = generate_job_id now uuid4 (spider request) \<and>
           map_of (jobs w') jid = Some ''pending'' \<and>
           get_crawl_status jid (jobs w') = Inr [(''job_id'', jid), (''status'', ''pending'')]"
proof -
  have ok: "\<not> spider request \<notin> set available_spiders"
    using assms by (simp add: available_spiders_def)
  show ?thesis
    using ok by (simp add: trigger_crawl_def Let_def get_crawl_status_def map_of_update_same)
qed

theorem trigger_crawl_registers_pending_witness:
  "spider eventbrite_request \<in> {''luma'', ''eventbrite''} \<and>
   fst (trigger_crawl new_year_2024 sample_uuid (Some eventbrite_request) empty_world) =
     Inr \<lparr>job_id = ''crawl_20240101_123456_eventbrite_1b9d6bcd'', status = ''pending''\<rparr> \<and>
   get_crawl_status ''crawl_20240101_123456_eventbrite_1b9d6bcd''
     (jobs (snd (trigger_crawl new_year_2024 sample_uuid (Some eventbrite_request) empty_world))) =
     Inr [(''job_id'', ''crawl_20240101_123456_eventbrite_1b9d6bcd''), (''status'', ''pending'')]"
proof -
  have h: "spider eventbrite_request \<in> {''luma'', ''eventbrite''}"
    by (simp add: eventbrite_request_def)
  from trigger_crawl_registers_pending[OF h, of new_year_2024 sample_uuid empty_world]
  obtain jid w' where
    r: "trigger_crawl new_year_2024 sample_uuid (Some eventbrite_request) empty_world =
          (Inr \<lparr>job_id = jid, status = ''pending''\<rparr>, w')" and
    j: "jid = generate_job_id new_year_2024 sample_uuid (spider eventbrite_request)" and
    g: "get_crawl_status jid (jobs w') = Inr [(''job_id'', jid), (''status'', ''pending'')]"
    by blast
  have "jid = ''crawl_20240101_123456_eventbrite_1b9d6bcd''"
    using j by (simp add: eventbrite_request_def job_id_example)
  with r g h show ?thesis by simp
qed

text \<open>
  C3: for a request whose spider is neither \<^verbatim>\<open>luma\<close> nor \<^verbatim>\<open>eventbrite\<close>, \<^verbatim>\<open>trigger_crawl\<close>
  raises an \<^verbatim>\<open>HTTPException\<close> with status code 400 whose detail holds the list of the
  available spiders, and so both names, and the world is left as it was.
\<close>

theorem trigger_crawl_rejects_unknown_spider:
  assumes "spider request \<notin> {''luma'', ''eventbrite''}"
  shows "\<exists>msg. trigger_crawl now uuid4 (Some request) w = (Inl (HTTPException 400 msg), w) \<and>
           sublist (str_list available_spiders) msg \<and>
           sublist ''luma'' msg \<and> sublist ''eventbrite'' msg"
proof -
  let ?msg = "''Spider '' @ [apostrophe] @ spider request @ [apostrophe] @
              '' not found. Available: '' @ str_list available_spiders"
  have bad: "spider request \<notin> set available_spiders"
    using assms by (simp add: available_spiders_def)
  have res: "trigger_crawl now uuid4 (Some request) w = (Inl (HTTPException 400 ?msg), w)"
    using bad by (simp add: trigger_crawl_def)
  have all: "sublist (str_list available_spiders) ?msg"
    by (intro sublist_suffix_part) simp
  have luma: "sublist ''luma'' ?msg"
    by (intro sublist_suffix_part sublist_luma)
  have eventbrite: "sublist ''eventbrite'' ?msg"
    by (intro sublist_suffix_part sublist_eventbrite)
  from res all luma eventbrite show ?thesis by blast
qed

theorem trigger_crawl_rejects_unknown_spider_witness:
  "spider meetup_request \<notin> {''luma'', ''eventbrite''} \<and>
   (\<exists>msg. trigger_crawl new_year_2024 sample_uuid (Some meetup_request) empty_world =
            (Inl (HTTPException 400 msg), empty_world) \<and>
          sublist (str_list available_spiders) msg \<and>
          sublist ''luma'' msg \<and> sublist ''eventbrite'' msg) \<and>
   trigger_crawl new_year_2024 sample_uuid (Some meetup_request) empty_world =
     (Inl (HTTPException 400
        (''Spider '' @ [apostrophe] @ ''meetup'' @ [apostrophe] @ '' not found. Available: ['' @
         [apostrophe] @ ''luma'' @ [apostrophe] @ '', '' @
         [apostrophe] @ ''eventbrite'' @ [apostrophe] @ '']'')), empty_world)"
proof -
  have h: "spider meetup_request \<notin> {''luma'', ''eventbrite''}"
    by (simp add: meetup_request_def)
  have v: "trigger_crawl new_year_2024 sample_uuid (Some meetup_request) empty_world =
     (Inl (HTTPException 400
        (''Spider '' @ [apostrophe] @ ''meetup'' @ [apostrophe] @ '' not found. Available: ['' @
         [apostrophe] @ ''luma'' @ [apostrophe] @ '', '' @
         [apostrophe] @ ''eventbrite'' @ [apostrophe] @ '']'')), empty_world)"
    by (simp add: trigger_crawl_def meetup_request_def available_spiders_def str_list_def
          repr_str_def)
  from h trigger_crawl_rejects_unknown_spider[OF h, of new_year_2024 sample_uuid empty_world] v
  show ?thesis by (intro conjI)
qed

text \<open>
  C5: on a store where the job id is absent, \<^verbatim>\<open>get_crawl_status\<close> and \<^verbatim>\<open>cancel_crawl_job\<close>
  both raise the 404 exception and the store stays as it is.  On a store that holds the id,
  \<^verbatim>\<open>cancel_crawl_job\<close> succeeds and deletes it.  In both cases, after the call of
  \<^verbatim>\<open>cancel_crawl_job\<close> a status query and a second delete raise the 404 exception, the
  very exception raised on the empty store, where the id was never created.
\<close>

theorem absent_job_not_found:
  "(map_of js jid = None \<longrightarrow>
      get_crawl_status jid js = Inl (job_not_found jid) \<and>
      cancel_crawl_job jid js = (Inl (job_not_found jid), js)) \<and>
   (map_of js jid \<noteq> None \<longrightarrow>
      (\<exists>confirmation. cancel_crawl_job jid js = (Inr confirmation, AList.delete jid js))) \<and>
   get_crawl_status jid (snd (cancel_crawl_job jid js)) = Inl (job_not_found jid) \<and>
   cancel_crawl_job jid (snd (cancel_crawl_job jid js)) =
     (Inl (job_not_found jid), snd (cancel_crawl_job jid js)) \<and>
   get_crawl_status jid [] = Inl (job_not_found jid) \<and>
   cancel_crawl_job jid [] = (Inl (job_not_found jid), []) \<and>
   status_code (job_not_found jid) = 404"
  by (auto simp add: get_crawl_status_def cancel_crawl_job_def job_not_found_def map_of_delete_same
           split: option.splits)

theorem absent_job_not_found_witness:
  "map_of sample_jobs ''job_d'' = None \<and>
   get_crawl_status ''job_d'' sample_jobs = Inl (job_not_found ''job_d'') \<and>
   cancel_crawl_job ''job_d'' sample_jobs = (Inl (job_not_found ''job_d''), sample_jobs) \<and>
   map_of sample_jobs ''job_b'' \<noteq> None \<and>
   (\<exists>confirmation. cancel_crawl_job ''job_b'' sample_jobs =
      (Inr confirmation, [(''job_a'', ''pending''), (''job_c'', ''pending'')])) \<and>
   get_crawl_status ''job_b'' (snd (cancel_crawl_job ''job_b'' sample_jobs)) =
     Inl (job_not_found ''job_b'')"
proof -
  have absent: "map_of sample_jobs ''job_d'' = None"
    by (simp add: sample_jobs_def)
  have present: "map_of sample_jobs ''job_b'' \<noteq> None"
    by (simp add: sample_jobs_def)
  have deleted: "AList.delete ''job_b'' sample_jobs = [(''job_a'', ''pending''), (''job_c'', ''pending'')]"
    by (simp add: sample_jobs_def AList.delete_eq)
  from absent_job_not_found[of sample_jobs "''job_d''"] absent
       absent_job_not_found[of sample_jobs "''job_b''"] present deleted
  show ?thesis by simp
qed

text \<open>
  C9: for every store, the counts of \<^verbatim>\<open>status_summary\<close> returned by \<^verbatim>\<open>list_crawl_jobs\<close> sum
  to \<^verbatim>\<open>total_jobs\<close>, the returned jobs are the store, and \<^verbatim>\<open>total_jobs\<close> is the number of
  its entries, which for a dict (no key twice) is the number of its keys.
\<close>

theorem list_crawl_jobs_summary_total:
  "sum_list (map snd (status_summary (list_crawl_jobs js))) = total_jobs (list_crawl_jobs js) \<and>
   listed_jobs (list_crawl_jobs js) = js \<and>
   total_jobs (list_crawl_jobs js) = int (length (listed_jobs (list_crawl_jobs js))) \<and>
   (distinct (map fst js) \<longrightarrow> total_jobs (list_crawl_jobs js) = int (card (dom (map_of js))))"
  by (simp add: list_crawl_jobs_def sum_fold_count_status card_keys)

theorem list_crawl_jobs_summary_total_witness:
  "distinct (map fst sample_jobs) \<and>
   status_summary (list_crawl_jobs sample_jobs) = [(''pending'', 2), (''running'', 1)] \<and>
   sum_list (map snd (status_summary (list_crawl_jobs sample_jobs))) = 3 \<and>
   total_jobs (list_crawl_jobs sample_jobs) = 3 \<and>
   int (card (dom (map_of sample_jobs))) = 3"
proof -
  have d: "distinct (map fst sample_jobs)"
    by (simp add: sample_jobs_def)
  have t: "total_jobs (list_crawl_jobs sample_jobs) = 3"
    by (simp add: list_crawl_jobs_def sample_jobs_def)
  have s: "status_summary (list_crawl_jobs sample_jobs) = [(''pending'', 2), (''running'', 1)]"
    by (simp add: list_crawl_jobs_def sample_jobs_def count_status_def)
  from list_crawl_jobs_summary_total[of sample_jobs] d t s
  show ?thesis by simp
qed

text \<open>
  C10: two requests with the same spider, whatever their \<^verbatim>\<open>urls\<close>, submitted at the same
  clock reading with the same UUID on the same world, give the same response and the same
  world.
\<close>

theorem trigger_crawl_ignores_urls:
  assumes "spider r1 = spider r2"
  shows "trigger_crawl now uuid4 (Some r1) w = trigger_crawl now uuid4 (Some r2) w"
  using assms by (simp add: trigger_crawl_def)

theorem trigger_crawl_ignores_urls_witness:
  "spider luma_request = spider CrawlRequest_default \<and>
   urls luma_request \<noteq> urls CrawlRequest_default \<and>
   trigger_crawl new_year_2024 sample_uuid (Some luma_request) empty_world =
   trigger_crawl new_year_2024 sample_uuid (Some CrawlRequest_default) empty_world"
proof -
  have h: "spider luma_request = spider CrawlRequest_default"
    by (simp add: luma_request_def CrawlRequest_default_def)
  have u: "urls luma_request \<noteq> urls CrawlRequest_default"
    by (simp add: luma_request_def CrawlRequest_default_def)
  from h u trigger_crawl_ignores_urls[OF h, of new_year_2024 sample_uuid empty_world]
  show ?thesis by (intro conjI)
qed

section \<open>The execution stub\<close>

lemma try_block_no_late_fault:
  assumes "env Print_completed = None"
  shows "try_block env jid =
     (case first_raised env of
        None \<Rightarrow> ([(jid, ''running''), (jid, ''completed'')], None)
      | Some e \<Rightarrow> ([(jid, ''running'')], Some e))"
  using assms by (simp add: try_block_def first_raised_def Let_def split: option.splits)

lemma run_spider_async_no_late_fault:
  assumes "env Print_completed = None" and "env Print_failed = None"
  shows "run_spider_async env spider_name jid =
     (case first_raised env of
        None \<Rightarrow> ([(jid, ''running''), (jid, ''completed'')], None)
      | Some e \<Rightarrow>
          if is_Exception e then ([(jid, ''running''), (jid, ''failed'')], None)
          else ([(jid, ''running'')], Some e))"
  using assms
  by (simp add: run_spider_async_def try_block_no_late_fault Let_def split: option.splits)

lemma first_raised_caught:
  assumes "\<forall>c e. env c = Some e \<longrightarrow> is_Exception e" and "first_raised env = Some e"
  shows "is_Exception e"
  using assms by (auto simp: first_raised_def split: option.splits)

text \<open>
  C4, as the code has it.  Let the two \<^verbatim>\<open>print\<close> calls that follow the assignment of a
  terminal status return.  Then the coroutine first assigns \<^verbatim>\<open>running\<close>; when no call
  raises it assigns \<^verbatim>\<open>completed\<close> and returns; when a call raises an exception derived
  from \<^verbatim>\<open>Exception\<close> it assigns \<^verbatim>\<open>failed\<close> and returns; when a call raises an exception
  of another class, the exception leaves the coroutine and \<^verbatim>\<open>running\<close> stays.  The
  statuses assigned are a prefix of running, completed or of running, failed; when every
  exception raised derives from \<^verbatim>\<open>Exception\<close>, nothing leaves the coroutine and exactly
  one terminal status follows \<^verbatim>\<open>running\<close>.
\<close>

theorem run_spider_async_lifecycle:
  assumes "env Print_completed = None" and "env Print_failed = None"
  shows "run_spider_async env spider_name jid =
           (case first_raised env of
              None \<Rightarrow> ([(jid, ''running''), (jid, ''completed'')], None)
            | Some e \<Rightarrow>
                if is_Exception e then ([(jid, ''running''), (jid, ''failed'')], None)
                else ([(jid, ''running'')], Some e)) \<and>
         (prefix (map snd (fst (run_spider_async env spider_name jid))) [''running'', ''completed''] \<or>
          prefix (map snd (fst (run_spider_async env spider_name jid))) [''running'', ''failed'']) \<and>
         ((\<forall>c e. env c = Some e \<longrightarrow> is_Exception e) \<longrightarrow>
          snd (run_spider_async env spider_name jid) = None \<and>
          (\<exists>terminal \<in> {''completed'', ''failed''}.
             fst (run_spider_async env spider_name jid) = [(jid, ''running''), (jid, terminal)]))"
proof -
  note eq = run_spider_async_no_late_fault[OF assms, of spider_name jid]
  have p: "prefix (map snd (fst (run_spider_async env spider_name jid))) [''running'', ''completed''] \<or>
        prefix (map snd (fst (run_spider_async env spider_name jid))) [''running'', ''failed'']"
    unfolding eq by (simp split: option.splits)
  have t: "(\<forall>c e. env c = Some e \<longrightarrow> is_Exception e) \<longrightarrow>
         snd (run_spider_async env spider_name jid) = None \<and>
         (\<exists>terminal \<in> {''completed'', ''failed''}.
            fst (run_spider_async env spider_name jid) = [(jid, ''running''), (jid, terminal)])"
    unfolding eq using first_raised_caught[of env] by (auto split: option.splits)
  from eq p t show ?thesis by (intro conjI)
qed

theorem run_spider_async_lifecycle_witness:
  "no_faults Print_completed = None \<and> no_faults Print_failed = None \<and>
   run_spider_async no_faults ''luma'' ''job_a'' =
     ([(''job_a'', ''running''), (''job_a'', ''completed'')], None) \<and>
   raise_at Print_starting BrokenPipeError Print_completed = None \<and>
   raise_at Print_starting BrokenPipeError Print_failed = None \<and>
   list_all (\<lambda>c. raise_at Print_starting BrokenPipeError c \<in> {None, Some BrokenPipeError})
     [Sleep_startup, Print_starting, Sleep_crawl, Print_completed, Print_failed] \<and>
   is_Exception BrokenPipeError \<and>
   run_spider_async (raise_at Print_starting BrokenPipeError) ''luma'' ''job_a'' =
     ([(''job_a'', ''running''), (''job_a'', ''failed'')], None)"
proof -
  have a: "no_faults Print_completed = None" "no_faults Print_failed = None"
    by (simp_all add: no_faults_def)
  have b: "raise_at Print_starting BrokenPipeError Print_completed = None"
    "raise_at Print_starting BrokenPipeError Print_failed = None"
    by (simp_all add: raise_at_def)
  have c: "\<forall>c e. raise_at Print_starting BrokenPipeError c = Some e \<longrightarrow> is_Exception e"
    by (simp add: raise_at_def BrokenPipeError_def)
  have f0: "first_raised no_faults = None"
    by (simp add: first_raised_def no_faults_def)
  have f1: "first_raised (raise_at Print_starting BrokenPipeError) = Some BrokenPipeError"
    by (simp add: first_raised_def raise_at_def)
  have e: "is_Exception BrokenPipeError"
    by (simp add: BrokenPipeError_def)
  have l: "list_all (\<lambda>c. raise_at Print_starting BrokenPipeError c \<in> {None, Some BrokenPipeError})
     [Sleep_startup, Print_starting, Sleep_crawl, Print_completed, Print_failed]"
    by (simp add: raise_at_def)
  from run_spider_async_lifecycle[OF a, of "''luma''" "''job_a''"]
       run_spider_async_lifecycle[OF b, of "''luma''" "''job_a''"] a b c f0 f1 e l
  show ?thesis by simp
qed

text \<open>
  C4, as the specification states it, fails in two ways.  When the \<^verbatim>\<open>print\<close> that follows
  the assignment of \<^verbatim>\<open>completed\<close> raises, the handler assigns \<^verbatim>\<open>failed\<close> after
  \<^verbatim>\<open>completed\<close>: both terminal statuses are written.  When a \<^verbatim>\<open>sleep\<close> is cancelled,
  \<^verbatim>\<open>except Exception\<close> does not catch the \<^verbatim>\<open>CancelledError\<close>: it leaves the coroutine
  and no terminal status is written.
\<close>

theorem run_spider_async_escapes:
  "run_spider_async (raise_at Print_completed BrokenPipeError) ''luma'' ''job_a'' =
     ([(''job_a'', ''running''), (''job_a'', ''completed''), (''job_a'', ''failed'')], None) \<and>
   run_spider_async (raise_at Sleep_crawl CancelledError) ''luma'' ''job_a'' =
     ([(''job_a'', ''running'')], Some CancelledError)"
  by (simp add: run_spider_async_def try_block_def raise_at_def BrokenPipeError_def
        CancelledError_def)

lemma run_tasks_scheduled:
  "map_of (jobs (run_tasks no_faults \<lparr>jobs = js, tasks = [(sp, jid)]\<rparr>)) jid = Some ''completed''"
  by (simp add: run_tasks_def run_spider_async_def try_block_def no_faults_def apply_writes_def
        map_of_update_same)

text \<open>
  C1 fails on the code: \<^verbatim>\<open>trigger_crawl\<close> hands no coroutine to the event loop.  After
  the submission of \<^verbatim>\<open>eventbrite\<close> on the empty world the loop has no task, and when it
  has run all its tasks the status of the returned job id is still \<^verbatim>\<open>pending\<close>.  Had the
  coroutine been scheduled, the status would be \<^verbatim>\<open>completed\<close>.
\<close>

theorem trigger_crawl_schedules_nothing:
  "fst (trigger_crawl new_year_2024 sample_uuid (Some eventbrite_request) empty_world) =
     Inr \<lparr>job_id = ''crawl_20240101_123456_eventbrite_1b9d6bcd'', status = ''pending''\<rparr> \<and>
   tasks (snd (trigger_crawl new_year_2024 sample_uuid (Some eventbrite_request) empty_world)) = [] \<and>
   get_crawl_status ''crawl_20240101_123456_eventbrite_1b9d6bcd''
     (jobs (run_tasks no_faults
        (snd (trigger_crawl new_year_2024 sample_uuid (Some eventbrite_request) empty_world)))) =
     Inr [(''job_id'', ''crawl_20240101_123456_eventbrite_1b9d6bcd''), (''status'', ''pending'')] \<and>
   get_crawl_status ''crawl_20240101_123456_eventbrite_1b9d6bcd''
     (jobs (run_tasks no_faults
        ((snd (trigger_crawl new_year_2024 sample_uuid (Some eventbrite_request) empty_world))
           \<lparr>tasks := [(''eventbrite'', ''crawl_20240101_123456_eventbrite_1b9d6bcd'')]\<rparr>))) =
     Inr [(''job_id'', ''crawl_20240101_123456_eventbrite_1b9d6bcd''), (''status'', ''completed'')]"
proof -
  have r: "trigger_crawl new_year_2024 sample_uuid (Some eventbrite_request) empty_world =
     (Inr \<lparr>job_id = ''crawl_20240101_123456_eventbrite_1b9d6bcd'', status = ''pending''\<rparr>,
      \<lparr>jobs = [(''crawl_20240101_123456_eventbrite_1b9d6bcd'', ''pending'')], tasks = []\<rparr>)"
    by (simp add: trigger_crawl_def eventbrite_request_def available_spiders_def
          job_id_example empty_world_def Let_def)
  show ?thesis
    unfolding r
    by (simp add: get_crawl_status_def run_tasks_def run_spider_async_def try_block_def
          no_faults_def apply_writes_def)
qed

section \<open>The event endpoints\<close>








lemma get_event_store_error:
  assumes "find_one matches query_error coll (by_api_id api_id) = Inl err \<or>
           (find_one matches query_error coll (by_api_id api_id) = Inr None \<and>
            find_one matches query_error coll (by_title api_id) = Inl err)"
  shows "get_event matches query_error event_out coll api_id = Inl (Unhandled err)"
  using assms by (auto simp: get_event_def)









end
